theory Spec2Isabelle
  imports Complex_Main
begin

section \<open>Go's float64\<close>

text \<open>
  A \<open>float64\<close> is an IEEE 754 binary64 number. A finite one is represented by the real
  number it denotes; the two infinities and NaN are separate values. The sign of zero is
  not represented: no comparison tells \<open>-0\<close> from \<open>+0\<close>, and the only divisor of the
  program, \<open>heightM * heightM\<close>, is never \<open>-0\<close>.
\<close>

datatype float64 = Fin real | PInf | NInf | NaN

definition pow2 :: "int \<Rightarrow> real" where
  "pow2 e = (if 0 \<le> e then 2 ^ nat e else 1 / 2 ^ nat (- e))"

text \<open>\<open>log2_up x\<close> is \<open>\<lfloor>log\<^sub>2 x\<rfloor>\<close> for \<open>1 \<le> x\<close>, by repeated halving.\<close>

function log2_up :: "real \<Rightarrow> int" where
  "log2_up x = (if 2 \<le> x then log2_up (x / 2) + 1 else 0)"
  by pat_completeness auto
termination
  by (relation "measure (\<lambda>x. nat \<lfloor>x\<rfloor>)") (auto, linarith)

text \<open>\<open>log2_down x\<close> is \<open>\<lfloor>log\<^sub>2 x\<rfloor>\<close> for \<open>0 < x < 1\<close>, by repeated doubling.\<close>

function log2_down :: "real \<Rightarrow> int" where
  "log2_down x = (if 0 < x \<and> x < 1 then log2_down (2 * x) - 1 else 0)"
  by pat_completeness auto
termination
proof (relation "measure (\<lambda>x. nat \<lceil>1 / x\<rceil>)")
  show "wf (measure (\<lambda>x::real. nat \<lceil>1 / x\<rceil>))" by simp
next
  fix x :: real
  assume "0 < x \<and> x < 1"
  define y where "y = 1 / x"
  have big: "1 < y" using \<open>0 < x \<and> x < 1\<close> by (simp add: y_def)
  then have c2: "2 \<le> \<lceil>y\<rceil>" by linarith
  then have r2: "(2::real) \<le> of_int \<lceil>y\<rceil>" by linarith
  have "y \<le> of_int \<lceil>y\<rceil>" by linarith
  with r2 have "y / 2 \<le> of_int \<lceil>y\<rceil> - 1" by linarith
  then have "y / 2 \<le> of_int (\<lceil>y\<rceil> - 1)" by (simp only: of_int_diff of_int_1)
  then have "\<lceil>y / 2\<rceil> \<le> \<lceil>y\<rceil> - 1" by (simp only: ceiling_le_iff)
  with c2 have "nat \<lceil>y / 2\<rceil> < nat \<lceil>y\<rceil>" by linarith
  moreover have "y / 2 = 1 / (2 * x)" by (simp add: y_def)
  ultimately have "nat \<lceil>1 / (2 * x)\<rceil> < nat \<lceil>1 / x\<rceil>" by (simp only: y_def)
  then show "(2 * x, x) \<in> measure (\<lambda>x. nat \<lceil>1 / x\<rceil>)" by (simp only: in_measure)
qed

definition ilog2 :: "real \<Rightarrow> int" where
  "ilog2 x = (if 1 \<le> x then log2_up x else log2_down x)"

text \<open>
  The exponent of the binade a real falls in, kept within the exponent range of binary64
  (below \<open>2\<^sup>-\<^sup>1\<^sup>0\<^sup>2\<^sup>2\<close> the numbers are subnormal and share the exponent \<open>-1022\<close>).
\<close>

definition binade :: "real \<Rightarrow> int" where
  "binade x = max (- 1022) (min 1023 (ilog2 \<bar>x\<bar>))"

definition round_half_even :: "real \<Rightarrow> int" where
  "round_half_even x =
     (let f = \<lfloor>x\<rfloor>; d = x - of_int f
      in if d < 1 / 2 then f else if 1 / 2 < d then f + 1 else if even f then f else f + 1)"

text \<open>
  Rounding to nearest, ties to even, with 53 significant bits; a result of magnitude
  \<open>2\<^sup>1\<^sup>0\<^sup>2\<^sup>4\<close> or more overflows to an infinity.
\<close>

definition round64 :: "real \<Rightarrow> float64" where
  "round64 x =
     (let q = pow2 (binade x - 52);
          r = of_int (round_half_even (x / q)) * q
      in if pow2 1024 \<le> \<bar>r\<bar> then (if x < 0 then NInf else PInf) else Fin r)"

text \<open>The comparisons \<open><\<close> and \<open><=\<close>: false whenever an operand is NaN.\<close>

fun flt :: "float64 \<Rightarrow> float64 \<Rightarrow> bool" where
  "flt NaN _ = False"
| "flt _ NaN = False"
| "flt (Fin a) (Fin b) = (a < b)"
| "flt _ NInf = False"
| "flt NInf _ = True"
| "flt PInf _ = False"
| "flt _ PInf = True"

fun fle :: "float64 \<Rightarrow> float64 \<Rightarrow> bool" where
  "fle NaN _ = False"
| "fle _ NaN = False"
| "fle (Fin a) (Fin b) = (a \<le> b)"
| "fle NInf _ = True"
| "fle _ PInf = True"
| "fle _ NInf = False"
| "fle PInf _ = False"

definition fgt :: "float64 \<Rightarrow> float64 \<Rightarrow> bool" where
  "fgt x y = flt y x"

definition fge :: "float64 \<Rightarrow> float64 \<Rightarrow> bool" where
  "fge x y = fle y x"

text \<open>The product \<open>x * y\<close>.\<close>

fun fmul :: "float64 \<Rightarrow> float64 \<Rightarrow> float64" where
  "fmul NaN _ = NaN"
| "fmul _ NaN = NaN"
| "fmul (Fin a) (Fin b) = round64 (a * b)"
| "fmul (Fin a) PInf = (if a = 0 then NaN else if 0 < a then PInf else NInf)"
| "fmul (Fin a) NInf = (if a = 0 then NaN else if 0 < a then NInf else PInf)"
| "fmul PInf (Fin b) = (if b = 0 then NaN else if 0 < b then PInf else NInf)"
| "fmul NInf (Fin b) = (if b = 0 then NaN else if 0 < b then NInf else PInf)"
| "fmul PInf PInf = PInf"
| "fmul PInf NInf = NInf"
| "fmul NInf PInf = NInf"
| "fmul NInf NInf = PInf"

text \<open>The quotient \<open>x / y\<close>; a zero divisor is \<open>+0\<close>.\<close>

fun fdiv :: "float64 \<Rightarrow> float64 \<Rightarrow> float64" where
  "fdiv NaN _ = NaN"
| "fdiv _ NaN = NaN"
| "fdiv (Fin a) (Fin b) =
     (if b = 0 then (if a = 0 then NaN else if 0 < a then PInf else NInf)
      else round64 (a / b))"
| "fdiv (Fin a) _ = Fin 0"
| "fdiv PInf (Fin b) = (if 0 \<le> b then PInf else NInf)"
| "fdiv NInf (Fin b) = (if 0 \<le> b then NInf else PInf)"
| "fdiv _ _ = NaN"

section \<open>Data model\<close>

record User =
  Name :: string
  WeightKg :: float64
  HeightM :: float64
  BMI :: float64
  Category :: string

section \<open>BMI calculation functions\<close>

definition calculateBMI :: "float64 \<Rightarrow> float64 \<Rightarrow> float64" where
  "calculateBMI weightKg heightM =
     (if fle heightM (Fin 0) then Fin 0
      else fdiv weightKg (fmul heightM heightM))"

definition getBMICategory :: "float64 \<Rightarrow> string" where
  "getBMICategory bmi =
     (if flt bmi (round64 18.5) then ''Underweight''
      else if fge bmi (round64 18.5) \<and> fle bmi (round64 24.9) then ''Normal Weight''
      else if fge bmi (round64 25.0) \<and> fle bmi (round64 29.9) then ''Overweight''
      else if fge bmi (round64 30.0) then ''Obesity''
      else ''Cannot interpret'')"

section \<open>The world outside the program\<close>

text \<open>
  Go's \<open>error\<close> values: what \<open>os.IsNotExist\<close> tells apart, and the message that
  \<open>err.Error()\<close> returns.
\<close>

datatype error = ErrNotExist string | Err string

fun Error :: "error \<Rightarrow> string" where
  "Error (ErrNotExist m) = m"
| "Error (Err m) = m"

fun IsNotExist :: "error \<Rightarrow> bool" where
  "IsNotExist (ErrNotExist _) = True"
| "IsNotExist (Err _) = False"

text \<open>\<open>fmt.Errorf(prefix + "%w", err)\<close>: a new error whose message is the prefix and the message of \<open>err\<close>.\<close>

definition Errorf :: "string \<Rightarrow> error \<Rightarrow> error" where
  "Errorf prefix err = Err (prefix @ Error err)"

text \<open>The arguments of a formatted output, and a log line as its format with its arguments.\<close>

datatype arg = AString string | AInt int | AFloat float64 | AError error

type_synonym log_entry = "string \<times> arg list"

text \<open>
  The files: the content of each existing path, and the paths at which reading an
  existing file or writing fails (with the message of the error, which is not a
  not-exist error). A write that fails leaves the content as it was.
\<close>

record filesystem =
  files :: "string \<rightharpoonup> string"
  read_fault :: "string \<rightharpoonup> string"
  write_fault :: "string \<rightharpoonup> string"

definition ReadFile :: "filesystem \<Rightarrow> string \<Rightarrow> error + string" where
  "ReadFile fsys path =
     (case files fsys path of
        None \<Rightarrow> Inl (ErrNotExist (''open '' @ path @ '': no such file or directory''))
      | Some data \<Rightarrow> (case read_fault fsys path of Some m \<Rightarrow> Inl (Err m) | None \<Rightarrow> Inr data))"

definition WriteFile :: "filesystem \<Rightarrow> string \<Rightarrow> string \<Rightarrow> error option \<times> filesystem" where
  "WriteFile fsys path data =
     (case write_fault fsys path of
        Some m \<Rightarrow> (Some (Err m), fsys)
      | None \<Rightarrow> (None, fsys\<lparr>files := (files fsys)(path \<mapsto> data)\<rparr>))"

record ViewModel =
  Users :: "User list"
  Message :: string

text \<open>
  The library functions the program calls are parameters: \<open>strconv.ParseFloat(s, 64)\<close>
  (its value and its error), \<open>json.MarshalIndent(v, "", "  ")\<close>, \<open>json.Unmarshal\<close> into
  the nil slice, \<open>tpl.ExecuteTemplate(w, "layout", data)\<close> (what it writes and its error)
  and \<open>fmt.Sprintf\<close>.
\<close>

record env =
  ParseFloat :: "string \<Rightarrow> float64 \<times> error option"
  MarshalIndent :: "User list \<Rightarrow> error + string"
  Unmarshal :: "string \<Rightarrow> error + User list"
  ExecuteTemplate :: "ViewModel \<Rightarrow> string \<times> error option"
  Sprintf :: "string \<Rightarrow> arg list \<Rightarrow> string"

text \<open>The global \<open>users\<close>, the files and the log.\<close>

record state =
  users :: "User list"
  fs :: filesystem
  logs :: "log_entry list"

text \<open>
  Modelled from the spec: the constant \<open>dataFile\<close> is commented out in main.go (line 14);
  the persisted file's path is a fixed configuration constant, with the value given there.
\<close>

definition dataFile :: string where
  "dataFile = ''users_data.json''"

section \<open>Backend (file operations)\<close>

text \<open>
  \<open>log.Fatalf\<close> ends the process: \<open>loadUserData\<close> returns either the fatal log line
  (\<open>Inl\<close>) or the state the program goes on with.
\<close>

definition loadUserData :: "env \<Rightarrow> state \<Rightarrow> log_entry + state" where
  "loadUserData e s =
     (case ReadFile (fs s) dataFile of
        Inl err \<Rightarrow>
          if IsNotExist err
          then Inr (s\<lparr>users := [],
                 logs := logs s @ [(''Note: %s not found. Starting with an empty user list.'',
                                    [AString dataFile])]\<rparr>)
          else Inl (''Error reading data file: %v'', [AError err])
      | Inr data \<Rightarrow>
          (case Unmarshal e data of
             Inl err \<Rightarrow> Inl (''Error unmarshalling JSON data: %v'', [AError err])
           | Inr us \<Rightarrow>
               Inr (s\<lparr>users := us,
                 logs := logs s @ [(''Loaded %d user records from %s.'',
                                    [AInt (int (length us)), AString dataFile])]\<rparr>)))"

definition saveUserData :: "env \<Rightarrow> state \<Rightarrow> error option \<times> state" where
  "saveUserData e s =
     (case MarshalIndent e (users s) of
        Inl err \<Rightarrow> (Some (Errorf ''error marshalling user data: '' err), s)
      | Inr jsonData \<Rightarrow>
          (case WriteFile (fs s) dataFile jsonData of
             (Some err, fsys) \<Rightarrow> (Some (Errorf ''error writing data to file: '' err), s\<lparr>fs := fsys\<rparr>)
           | (None, fsys) \<Rightarrow> (None, s\<lparr>fs := fsys\<rparr>)))"

text \<open>
  \<open>save(load())\<close>: \<open>loadUserData\<close>, then \<open>saveUserData\<close> on the loaded set. There is no
  result (\<open>None\<close>) when \<open>loadUserData\<close> ends the process or \<open>saveUserData\<close> returns an
  error.
\<close>

definition saveLoad :: "env \<Rightarrow> state \<Rightarrow> state option" where
  "saveLoad e s =
     (case loadUserData e s of
        Inl fatal \<Rightarrow> None
      | Inr s1 \<Rightarrow>
          (case saveUserData e s1 of
             (Some err, s2) \<Rightarrow> None
           | (None, s2) \<Rightarrow> Some s2))"

section \<open>HTTP handlers\<close>

text \<open>
  \<open>url.Values\<close> maps a key to its values; \<open>Get\<close> is the first value, or the empty string.
  A request carries its method, its path, its URL query and the outcome that
  \<open>r.ParseForm()\<close> has on it: an error, or the form values.
\<close>

type_synonym Values = "string \<rightharpoonup> string list"

definition Get :: "Values \<Rightarrow> string \<Rightarrow> string" where
  "Get v key = (case v key of None \<Rightarrow> [] | Some [] \<Rightarrow> [] | Some (x # _) \<Rightarrow> x)"

record request =
  Method :: string
  Path :: string
  URLQuery :: Values
  ParseForm :: "error + Values"

text \<open>What a handler does to its \<open>http.ResponseWriter\<close>, call by call.\<close>

datatype action =
    HttpError string nat
  | Redirect string nat
  | Written string

definition MethodPost :: string where
  "MethodPost = ''POST''"

definition StatusSeeOther :: nat where
  "StatusSeeOther = 303"

definition StatusBadRequest :: nat where
  "StatusBadRequest = 400"

definition StatusMethodNotAllowed :: nat where
  "StatusMethodNotAllowed = 405"

definition StatusInternalServerError :: nat where
  "StatusInternalServerError = 500"

text \<open>Executing the template, and the 500 that follows its failure.\<close>

definition render :: "env \<Rightarrow> ViewModel \<Rightarrow> action list" where
  "render e data =
     (case ExecuteTemplate e data of
        (out, Some err) \<Rightarrow>
          [Written out,
           HttpError (''Error rendering template: '' @ Error err) StatusInternalServerError]
      | (out, None) \<Rightarrow> [Written out])"

definition indexHandler :: "env \<Rightarrow> request \<Rightarrow> state \<Rightarrow> action list" where
  "indexHandler e r s = render e \<lparr>Users = users s, Message = []\<rparr>"

definition calculateHandler :: "env \<Rightarrow> request \<Rightarrow> state \<Rightarrow> action list \<times> state" where
  "calculateHandler e r s =
     (if Method r \<noteq> MethodPost
      then ([HttpError ''Method not allowed'' StatusMethodNotAllowed], s)
      else
        case ParseForm r of
          Inl err \<Rightarrow> ([HttpError (''Error parsing form data: '' @ Error err) StatusBadRequest], s)
        | Inr form \<Rightarrow>
            let name = Get form ''name'';
                weightStr = Get form ''weight'';
                heightStr = Get form ''height'';
                (weightKg, errW) = ParseFloat e weightStr;
                (heightM, errH) = ParseFloat e heightStr
            in
              if errW \<noteq> None \<or> errH \<noteq> None \<or> fle weightKg (Fin 0) \<or> fle heightM (Fin 0)
              then ([HttpError
                       ''Invalid input. Please enter valid positive numbers for weight and height.''
                       StatusBadRequest], s)
              else
                let bmi = calculateBMI weightKg heightM;
                    category = getBMICategory bmi;
                    newUser = \<lparr>Name = name, WeightKg = weightKg, HeightM = heightM,
                               BMI = bmi, Category = category\<rparr>;
                    s1 = s\<lparr>users := users s @ [newUser]\<rparr>;
                    (err, s2) = saveUserData e s1;
                    s3 = (case err of
                            Some err' \<Rightarrow>
                              s2\<lparr>logs := logs s2 @ [(''Failed to save data: %v'', [AError err'])]\<rparr>
                          | None \<Rightarrow> s2)
                in ([Redirect ''/?status=success'' StatusSeeOther], s3))"

text \<open>
  Indexing a slice panics out of range. \<open>rootHandler\<close> is the function literal that
  \<open>main\<close> registers for the pattern \<open>/\<close>; it reads the state and does not change it.
\<close>

datatype panic = IndexOutOfRange int nat

definition index :: "'a list \<Rightarrow> int \<Rightarrow> panic + 'a" where
  "index xs i =
     (if 0 \<le> i \<and> i < int (length xs) then Inr (xs ! nat i)
      else Inl (IndexOutOfRange i (length xs)))"

definition rootHandler :: "env \<Rightarrow> request \<Rightarrow> state \<Rightarrow> panic + action list" where
  "rootHandler e r s =
     (if Get (URLQuery r) ''status'' = ''success''
      then
        case index (users s) (int (length (users s)) - 1) of
          Inl p \<Rightarrow> Inl p
        | Inr u \<Rightarrow>
            (case index (users s) (int (length (users s)) - 1) of
               Inl p \<Rightarrow> Inl p
             | Inr u' \<Rightarrow>
                 Inr (render e
                   \<lparr>Users = users s,
                    Message = Sprintf e ''Success! %s's BMI (%.2f) calculated and saved.''
                                [AString (Name u), AFloat (BMI u')]\<rparr>))
      else Inr (indexHandler e r s))"

text \<open>
  The routes of \<open>main\<close>: \<open>/calculate\<close> goes to \<open>calculateHandler\<close>, every other path to
  the handler of \<open>/\<close>. The path is in canonical form (for another one the mux answers
  with a redirect to the canonical path and calls no handler). The server recovers from
  a handler's panic and goes on serving. Requests are served one after the other.
\<close>

definition serve :: "env \<Rightarrow> request \<Rightarrow> state \<Rightarrow> (panic + action list) \<times> state" where
  "serve e r s =
     (if Path r = ''/calculate''
      then (case calculateHandler e r s of (as, s') \<Rightarrow> (Inr as, s'))
      else (rootHandler e r s, s))"

fun run :: "env \<Rightarrow> request list \<Rightarrow> state \<Rightarrow> state" where
  "run e [] s = s"
| "run e (r # rs) s = run e rs (snd (serve e r s))"

text \<open>A record is consistent when its derived fields are the ones computed from its inputs.\<close>

definition consistent :: "User \<Rightarrow> bool" where
  "consistent u \<longleftrightarrow>
     BMI u = calculateBMI (WeightKg u) (HeightM u) \<and> Category u = getBMICategory (BMI u)"

section \<open>An environment for the examples\<close>

text \<open>
  A library environment to run the program on concrete requests: it parses the decimal
  strings of the examples and no other string, encodes a record set by the names in it,
  decodes only the empty array, renders a page as its message and formats a message as
  its format string.
\<close>

definition exampleEnv :: env where
  "exampleEnv =
     \<lparr>ParseFloat = (\<lambda>str.
        if str = ''75.5'' then (round64 75.5, None)
        else if str = ''1.75'' then (round64 1.75, None)
        else if str = ''1.70'' then (round64 1.70, None)
        else if str = ''24.95'' then (round64 24.95, None)
        else if str = ''1'' then (round64 1, None)
        else if str = ''0'' then (round64 0, None)
        else (Fin 0, Some (Err ''invalid syntax''))),
      MarshalIndent = (\<lambda>us. Inr (concat (map Name us))),
      Unmarshal = (\<lambda>data. if data = ''[]'' then Inr [] else Inl (Err ''unexpected end of JSON input'')),
      ExecuteTemplate = (\<lambda>data. (Message data, None)),
      Sprintf = (\<lambda>format as. format)\<rparr>"

definition exampleForm :: "string \<Rightarrow> string \<Rightarrow> string \<Rightarrow> Values" where
  "exampleForm name weight height =
     [''name'' \<mapsto> [name], ''weight'' \<mapsto> [weight], ''height'' \<mapsto> [height]]"

definition examplePost :: "string \<Rightarrow> string \<Rightarrow> string \<Rightarrow> request" where
  "examplePost name weight height =
     \<lparr>Method = ''POST'', Path = ''/calculate'', URLQuery = Map.empty,
      ParseForm = Inr (exampleForm name weight height)\<rparr>"

definition exampleGet :: "string \<Rightarrow> Values \<Rightarrow> request" where
  "exampleGet path query =
     \<lparr>Method = ''GET'', Path = path, URLQuery = query, ParseForm = Inr query\<rparr>"

text \<open>The record that the submission of Ann, 75.5 kg and 1.75 m, creates.\<close>

definition annUser :: User where
  "annUser =
     \<lparr>Name = ''Ann'', WeightKg = round64 75.5, HeightM = round64 1.75,
      BMI = calculateBMI (round64 75.5) (round64 1.75),
      Category = getBMICategory (calculateBMI (round64 75.5) (round64 1.75))\<rparr>"

text \<open>The state at startup, before \<open>loadUserData\<close>: the global \<open>users\<close> is the nil slice.\<close>

definition startState :: "filesystem \<Rightarrow> state" where
  "startState fsys = \<lparr>users = [], fs = fsys, logs = []\<rparr>"

definition emptyDisk :: filesystem where
  "emptyDisk = \<lparr>files = Map.empty, read_fault = Map.empty, write_fault = Map.empty\<rparr>"

definition corruptDisk :: filesystem where
  "corruptDisk =
     \<lparr>files = [dataFile \<mapsto> ''[{''], read_fault = Map.empty, write_fault = Map.empty\<rparr>"

definition readOnlyDisk :: filesystem where
  "readOnlyDisk =
     \<lparr>files = Map.empty, read_fault = Map.empty,
      write_fault = [dataFile \<mapsto> ''open users_data.json: permission denied'']\<rparr>"

text \<open>
  The example environment with a \<open>ParseFloat\<close> that also parses the string \<open>NaN\<close>, as
  \<open>strconv.ParseFloat\<close> does: to NaN, with no error.
\<close>

definition nanEnv :: env where
  "nanEnv =
     exampleEnv\<lparr>ParseFloat :=
       (\<lambda>str. if str = ''NaN'' then (NaN, None) else ParseFloat exampleEnv str)\<rparr>"

text \<open>
  The record set of Ann's record as JSON text: on one line, and as \<open>json.MarshalIndent\<close>
  writes it. The example environment with a JSON codec for the two record sets of the
  examples: it encodes the empty set and the set of Ann's record, and decodes these
  three texts.
\<close>

definition annCompact :: string where
  \<open>annCompact =
     ''[{"name":"Ann","weight_kg":75.5,"height_m":1.75,"bmi":24.653061224489797,"category":"Normal Weight"}]''\<close>

definition annJson :: string where
  \<open>annJson =
     ''[\<newline>  {\<newline>    "name": "Ann",\<newline>    "weight_kg": 75.5,\<newline>    "height_m": 1.75,\<newline>    "bmi": 24.653061224489797,\<newline>    "category": "Normal Weight"\<newline>  }\<newline>]''\<close>

definition jsonEnv :: env where
  "jsonEnv =
     exampleEnv\<lparr>
       MarshalIndent :=
         (\<lambda>us. if us = [] then Inr ''[]''
               else if us = [annUser] then Inr annJson
               else Inl (Err ''json: unsupported value'')),
       Unmarshal :=
         (\<lambda>data. if data = ''[]'' then Inr []
                 else if data = annCompact \<or> data = annJson then Inr [annUser]
                 else Inl (Err ''invalid character''))\<rparr>"

text \<open>
  A disk whose persisted file holds Ann's record on one line, and the state after
  \<open>save(load())\<close> from it.
\<close>

definition annDisk :: filesystem where
  "annDisk =
     \<lparr>files = [dataFile \<mapsto> annCompact], read_fault = Map.empty, write_fault = Map.empty\<rparr>"

definition annSaved :: state where
  "annSaved =
     \<lparr>users = [annUser],
      fs = \<lparr>files = [dataFile \<mapsto> annJson], read_fault = Map.empty,
             write_fault = Map.empty\<rparr>,
      logs = [(''Loaded %d user records from %s.'', [AInt 1, AString dataFile])]\<rparr>"

section \<open>The float64 constants of the program\<close>

text \<open>
  The values of the decimal constants \<open>18.5\<close>, \<open>24.9\<close>, \<open>25.0\<close>, \<open>29.9\<close> and \<open>30.0\<close> of
  \<open>getBMICategory\<close> as float64, and of the decimals of the examples; each decimal is
  written as the fraction in lowest terms that the simplifier turns it into.
\<close>

lemmas round64_eval = round64_def binade_def ilog2_def round_half_even_def pow2_def Let_def

lemma round64_18_5: "round64 (37 / 2) = Fin (37 / 2)"
  by (simp add: round64_eval)

lemma round64_24_9: "round64 (249 / 10) = Fin (3504363460047667 / 140737488355328)"
  by (simp add: round64_eval)

lemma round64_25: "round64 25 = Fin 25"
  by (simp add: round64_eval)

lemma round64_29_9: "round64 (299 / 10) = Fin (4208050901824307 / 140737488355328)"
  by (simp add: round64_eval)

lemma round64_30: "round64 30 = Fin 30"
  by (simp add: round64_eval)

lemma round64_18_49: "round64 (1849 / 100) = Fin (5204472319380029 / 281474976710656)"
  by (simp add: round64_eval)

lemma round64_24_95: "round64 (499 / 20) = Fin (7022800668930867 / 281474976710656)"
  by (simp add: round64_eval)

lemma round64_29_95: "round64 (599 / 20) = Fin (8430175552484147 / 281474976710656)"
  by (simp add: round64_eval)

lemma round64_0: "round64 0 = Fin 0"
  by (simp add: round64_eval)

lemma round64_1: "round64 1 = Fin 1"
  by (simp add: round64_eval)

lemma round64_75_5: "round64 (151 / 2) = Fin (151 / 2)"
  by (simp add: round64_eval)

lemma round64_1_75: "round64 (7 / 4) = Fin (7 / 4)"
  by (simp add: round64_eval)

lemma round64_1_70: "round64 (17 / 10) = Fin (7656119366529843 / 4503599627370496)"
  by (simp add: round64_eval)

lemmas round64_consts =
  round64_18_5 round64_24_9 round64_25 round64_29_9 round64_30 round64_18_49 round64_24_95
  round64_29_95 round64_0 round64_1 round64_75_5 round64_1_75 round64_1_70

section \<open>The BMI engine\<close>

text \<open>\<open>getBMICategory\<close> with its constants evaluated.\<close>

lemma getBMICategory_consts:
  "getBMICategory bmi =
     (if flt bmi (Fin (37 / 2)) then ''Underweight''
      else if fle (Fin (37 / 2)) bmi \<and> fle bmi (Fin (3504363460047667 / 140737488355328))
        then ''Normal Weight''
      else if fle (Fin 25) bmi \<and> fle bmi (Fin (4208050901824307 / 140737488355328))
        then ''Overweight''
      else if fle (Fin 30) bmi then ''Obesity''
      else ''Cannot interpret'')"
  by (simp add: getBMICategory_def fge_def round64_consts)

text \<open>
  The default branch is taken exactly by NaN and by the values strictly between the
  constants \<open>24.9\<close> and \<open>25.0\<close> or \<open>29.9\<close> and \<open>30.0\<close>; a negative value is
  \<open>Underweight\<close>.
\<close>

lemma getBMICategory_Cannot_interpret_iff:
  "getBMICategory bmi = ''Cannot interpret'' \<longleftrightarrow>
     bmi = NaN \<or>
     (flt (round64 24.9) bmi \<and> flt bmi (round64 25.0)) \<or>
     (flt (round64 29.9) bmi \<and> flt bmi (round64 30.0))"
  by (cases bmi) (auto simp: getBMICategory_consts round64_consts)

lemma getBMICategory_negative: "flt bmi (Fin 0) \<Longrightarrow> getBMICategory bmi = ''Underweight''"
  by (cases bmi) (auto simp: getBMICategory_consts)

text \<open>
  The scenario weight 75.5 kg, height 1.75 m: the BMI is the float64 nearest to
  \<open>24.653...\<close>, a normal weight.
\<close>

lemma scenario_75_5:
  "calculateBMI (round64 75.5) (round64 1.75) = Fin (3469609917004821 / 140737488355328) \<and>
   getBMICategory (calculateBMI (round64 75.5) (round64 1.75)) = ''Normal Weight''"
  by (simp add: calculateBMI_def getBMICategory_consts round64_consts) (simp add: round64_eval)

text \<open>
  C1, at the input that breaks it: the BMI 24.95 (the BMI that \<open>calculateBMI\<close> returns for
  weight 24.95 and height 1) is not negative and not NaN, and \<open>getBMICategory\<close> returns
  \<open>Cannot interpret\<close> for it, none of the four named categories: it lies in the gap
  between the constants \<open>24.9\<close> and \<open>25.0\<close>.
\<close>

theorem getBMICategory_gap:
  "fle (Fin 0) (round64 24.95) \<and>
   calculateBMI (round64 24.95) (round64 1) = round64 24.95 \<and>
   getBMICategory (round64 24.95) = ''Cannot interpret''"
  by (simp add: getBMICategory_consts calculateBMI_def round64_consts) (simp add: round64_eval)

text \<open>
  C2: for every weight \<open>w\<close> and height \<open>h\<close>, if \<open>h > 0\<close> then \<open>calculateBMI w h\<close> is
  \<open>w / (h * h)\<close>, and if \<open>h \<le> 0\<close> then it is exactly \<open>0.0\<close>, a finite value that is
  neither NaN nor an infinity nor negative.
\<close>

theorem calculateBMI_spec:
  "(fgt h (Fin 0) \<longrightarrow> calculateBMI w h = fdiv w (fmul h h)) \<and>
   (fle h (Fin 0) \<longrightarrow> calculateBMI w h = Fin 0)"
  by (cases h) (auto simp: calculateBMI_def fgt_def)

theorem calculateBMI_spec_witness:
  "fgt (round64 1.75) (Fin 0) \<and>
   calculateBMI (round64 75.5) (round64 1.75) =
     fdiv (round64 75.5) (fmul (round64 1.75) (round64 1.75)) \<and>
   fle (Fin (- 1)) (Fin 0) \<and>
   calculateBMI (round64 75.5) (Fin (- 1)) = Fin 0"
  using calculateBMI_spec [of "round64 1.75" "round64 75.5"]
    calculateBMI_spec [of "Fin (- 1)" "round64 75.5"]
  by (simp add: fgt_def round64_consts)

text \<open>
  C7: \<open>getBMICategory\<close> maps 18.49 to Underweight, 18.5 and 24.9 to Normal Weight, 25.0 and
  29.9 to Overweight and 30.0 to Obesity: the bounds of the two middle bands belong to
  them.
\<close>

theorem getBMICategory_boundaries:
  "getBMICategory (round64 18.49) = ''Underweight'' \<and>
   getBMICategory (round64 18.5) = ''Normal Weight'' \<and>
   getBMICategory (round64 24.9) = ''Normal Weight'' \<and>
   getBMICategory (round64 25.0) = ''Overweight'' \<and>
   getBMICategory (round64 29.9) = ''Overweight'' \<and>
   getBMICategory (round64 30.0) = ''Obesity''"
  by (simp add: getBMICategory_consts round64_consts)

section \<open>The record store\<close>

lemma saveUserData_keeps:
  "saveUserData e s = (res, s') \<Longrightarrow> users s' = users s \<and> logs s' = logs s"
  by (auto simp: saveUserData_def split: sum.splits prod.splits option.splits)

text \<open>
  C5: at startup \<open>loadUserData\<close> returns with an empty record set when the persisted file
  is absent, and ends the process with a fatal error when the file is present and
  malformed (its content does not decode); it never returns with an empty set then.
\<close>

theorem loadUserData_startup:
  "(files (fs s) dataFile = None \<longrightarrow>
      loadUserData e s =
        Inr (s\<lparr>users := [],
               logs := logs s @ [(''Note: %s not found. Starting with an empty user list.'',
                                  [AString dataFile])]\<rparr>)) \<and>
   (files (fs s) dataFile = Some data \<and> Unmarshal e data = Inl err \<longrightarrow>
      loadUserData e s =
        Inl (case read_fault (fs s) dataFile of
               Some m \<Rightarrow> (''Error reading data file: %v'', [AError (Err m)])
             | None \<Rightarrow> (''Error unmarshalling JSON data: %v'', [AError err])))"
  by (auto simp: loadUserData_def ReadFile_def split: option.splits)

theorem loadUserData_startup_witness:
  "files (fs (startState emptyDisk)) dataFile = None \<and>
   loadUserData exampleEnv (startState emptyDisk) =
     Inr \<lparr>users = [], fs = emptyDisk,
          logs = [(''Note: %s not found. Starting with an empty user list.'',
                   [AString ''users_data.json''])]\<rparr> \<and>
   files (fs (startState corruptDisk)) dataFile = Some ''[{'' \<and>
   Unmarshal exampleEnv ''[{'' = Inl (Err ''unexpected end of JSON input'') \<and>
   loadUserData exampleEnv (startState corruptDisk) =
     Inl (''Error unmarshalling JSON data: %v'', [AError (Err ''unexpected end of JSON input'')])"
  using loadUserData_startup [of "startState emptyDisk" exampleEnv "''[{''"
      "Err ''unexpected end of JSON input''"]
    loadUserData_startup [of "startState corruptDisk" exampleEnv "''[{''"
      "Err ''unexpected end of JSON input''"]
  by (simp add: startState_def emptyDisk_def corruptDisk_def exampleEnv_def dataFile_def)

text \<open>
  C8: from a state whose persisted file exists, when \<open>save(load())\<close> has been performed
  once, performing it again succeeds and leaves the persisted file with the same content,
  byte for byte (and the same record set in memory). The program reads and rewrites the
  whole set at the one path \<open>dataFile\<close>; the JSON codec is the library's, and what is
  assumed of it is its round trip: a record set that \<open>json.Unmarshal\<close> decoded, once
  encoded by \<open>json.MarshalIndent\<close>, decodes to itself.
\<close>

theorem saveLoad_idempotent:
  assumes present: "files (fs s) dataFile = Some data"
    and codec: "\<forall>d us j. Unmarshal e d = Inr us \<longrightarrow> MarshalIndent e us = Inr j \<longrightarrow>
                 Unmarshal e j = Inr us"
    and first: "saveLoad e s = Some s1"
  shows "\<exists>s2. saveLoad e s1 = Some s2 \<and>
           files (fs s2) dataFile = files (fs s1) dataFile \<and> users s2 = users s1"
proof -
  from present first have nofault: "read_fault (fs s) dataFile = None"
    by (auto simp: saveLoad_def loadUserData_def ReadFile_def split: option.splits)
  from present first nofault obtain us where dec: "Unmarshal e data = Inr us"
    by (auto simp: saveLoad_def loadUserData_def ReadFile_def split: sum.splits)
  from present first nofault dec obtain j where enc: "MarshalIndent e us = Inr j"
    by (auto simp: saveLoad_def loadUserData_def ReadFile_def saveUserData_def
        split: sum.splits)
  from present first nofault dec enc have wr: "write_fault (fs s) dataFile = None"
    by (auto simp: saveLoad_def loadUserData_def ReadFile_def saveUserData_def WriteFile_def
        split: option.splits)
  from present first nofault dec enc wr
  have s1: "users s1 = us" "files (fs s1) dataFile = Some j"
    "read_fault (fs s1) dataFile = None" "write_fault (fs s1) dataFile = None"
    by (auto simp: saveLoad_def loadUserData_def ReadFile_def saveUserData_def WriteFile_def)
  from codec dec enc have dec': "Unmarshal e j = Inr us" by blast
  from s1 dec' enc show ?thesis
    by (simp add: saveLoad_def loadUserData_def ReadFile_def saveUserData_def WriteFile_def)
qed

theorem saveLoad_idempotent_witness:
  "files (fs (startState annDisk)) dataFile = Some annCompact \<and>
   annCompact \<noteq> annJson \<and>
   saveLoad jsonEnv (startState annDisk) = Some annSaved \<and>
   files (fs annSaved) dataFile = Some annJson \<and>
   saveLoad jsonEnv annSaved =
     Some (annSaved\<lparr>logs := logs annSaved @
       [(''Loaded %d user records from %s.'', [AInt 1, AString dataFile])]\<rparr>)"
proof -
  have present: "files (fs (startState annDisk)) dataFile = Some annCompact"
    by (simp add: startState_def annDisk_def)
  have differ: "annCompact \<noteq> annJson" "annCompact \<noteq> ''[]''" "annJson \<noteq> ''[]''"
    by (simp_all add: annCompact_def annJson_def)
  have codec: "\<forall>d us j. Unmarshal jsonEnv d = Inr us \<longrightarrow>
      MarshalIndent jsonEnv us = Inr j \<longrightarrow> Unmarshal jsonEnv j = Inr us"
    using differ by (auto simp: jsonEnv_def split: if_splits)
  have first: "saveLoad jsonEnv (startState annDisk) = Some annSaved"
    by (simp add: saveLoad_def loadUserData_def ReadFile_def saveUserData_def WriteFile_def
        jsonEnv_def startState_def annDisk_def annSaved_def differ)
  from saveLoad_idempotent [OF present codec first]
  obtain s2 where again: "saveLoad jsonEnv annSaved = Some s2"
    and same: "files (fs s2) dataFile = files (fs annSaved) dataFile" by blast
  have "saveLoad jsonEnv annSaved =
     Some (annSaved\<lparr>logs := logs annSaved @
       [(''Loaded %d user records from %s.'', [AInt 1, AString dataFile])]\<rparr>)"
    by (simp add: saveLoad_def loadUserData_def ReadFile_def saveUserData_def WriteFile_def
        jsonEnv_def annSaved_def differ)
  moreover have "files (fs annSaved) dataFile = Some annJson"
    by (simp add: annSaved_def)
  ultimately show ?thesis using present differ first again same by simp
qed

section \<open>The compute path\<close>

lemma fgt_zero_not_fle: "fgt x (Fin 0) \<Longrightarrow> \<not> fle x (Fin 0)"
  by (cases x) (simp_all add: fgt_def)

text \<open>
  C9: a request to \<open>/calculate\<close> whose method is not POST gets 405 Method Not Allowed;
  the state (the record set, the files, the log) is the one before, and the response
  does not depend on the form.
\<close>

theorem calculateHandler_not_post:
  "Method r \<noteq> MethodPost \<Longrightarrow>
     calculateHandler e r s = ([HttpError ''Method not allowed'' 405], s) \<and>
     calculateHandler e (r\<lparr>ParseForm := form\<rparr>) s = calculateHandler e r s"
  by (simp add: calculateHandler_def StatusMethodNotAllowed_def)

theorem calculateHandler_not_post_witness:
  "Method (exampleGet ''/calculate'' Map.empty) \<noteq> MethodPost \<and>
   calculateHandler exampleEnv (exampleGet ''/calculate'' Map.empty) (startState emptyDisk) =
     ([HttpError ''Method not allowed'' 405], startState emptyDisk)"
  using calculateHandler_not_post [of "exampleGet ''/calculate'' Map.empty" exampleEnv
      "startState emptyDisk"]
  by (simp add: exampleGet_def MethodPost_def)

text \<open>
  What the validation does reject and accept: a POST to \<open>/calculate\<close> for whose weight
  or height \<open>ParseFloat\<close> returns an error, or a value \<open>\<le> 0\<close>, gets 400 with the message
  that asks for valid positive numbers, and the state is the one before: no record is
  created. No upper bound is enforced: every pair of positive values, however large, is
  accepted and adds a record.
\<close>

lemma calculateHandler_invalid_input:
  assumes "Method r = MethodPost"
    and "ParseForm r = Inr form"
    and "ParseFloat e (Get form ''weight'') = (weightKg, errW)"
    and "ParseFloat e (Get form ''height'') = (heightM, errH)"
  shows "(errW \<noteq> None \<or> errH \<noteq> None \<or> fle weightKg (Fin 0) \<or> fle heightM (Fin 0) \<longrightarrow>
           calculateHandler e r s =
             ([HttpError
                 ''Invalid input. Please enter valid positive numbers for weight and height.''
                 400], s)) \<and>
         (errW = None \<and> errH = None \<and> fgt weightKg (Fin 0) \<and> fgt heightM (Fin 0) \<longrightarrow>
           fst (calculateHandler e r s) = [Redirect ''/?status=success'' 303] \<and>
           length (users (snd (calculateHandler e r s))) = Suc (length (users s)))"
proof (intro conjI impI)
  assume "errW \<noteq> None \<or> errH \<noteq> None \<or> fle weightKg (Fin 0) \<or> fle heightM (Fin 0)"
  with assms show "calculateHandler e r s =
             ([HttpError
                 ''Invalid input. Please enter valid positive numbers for weight and height.''
                 400], s)"
    by (simp add: calculateHandler_def StatusBadRequest_def)
next
  assume ok: "errW = None \<and> errH = None \<and> fgt weightKg (Fin 0) \<and> fgt heightM (Fin 0)"
  then have pos: "\<not> fle weightKg (Fin 0)" "\<not> fle heightM (Fin 0)"
    by (simp_all add: fgt_zero_not_fle)
  show "fst (calculateHandler e r s) = [Redirect ''/?status=success'' 303]"
    using assms ok pos
    by (simp add: calculateHandler_def StatusSeeOther_def Let_def split: prod.splits)
  show "length (users (snd (calculateHandler e r s))) = Suc (length (users s))"
    using assms ok pos
    by (auto simp: calculateHandler_def Let_def split: prod.splits option.splits
        dest!: saveUserData_keeps)
qed

lemma calculateHandler_invalid_input_example:
  "fle (round64 0) (Fin 0) \<and>
   calculateHandler exampleEnv (examplePost ''Ann'' ''0'' ''1.70'') (startState emptyDisk) =
     ([HttpError ''Invalid input. Please enter valid positive numbers for weight and height.''
         400], startState emptyDisk) \<and>
   snd (ParseFloat exampleEnv ''abc'') \<noteq> None \<and>
   calculateHandler exampleEnv (examplePost ''Ann'' ''abc'' ''1.70'') (startState emptyDisk) =
     ([HttpError ''Invalid input. Please enter valid positive numbers for weight and height.''
         400], startState emptyDisk) \<and>
   fgt (round64 75.5) (Fin 0) \<and> fgt (round64 1.75) (Fin 0) \<and>
   fst (calculateHandler exampleEnv (examplePost ''Ann'' ''75.5'' ''1.75'')
          (startState emptyDisk)) = [Redirect ''/?status=success'' 303]"
  using
    calculateHandler_invalid_input [of "examplePost ''Ann'' ''0'' ''1.70''"
      "exampleForm ''Ann'' ''0'' ''1.70''" exampleEnv "round64 0" None "round64 1.70" None
      "startState emptyDisk"]
    calculateHandler_invalid_input [of "examplePost ''Ann'' ''abc'' ''1.70''"
      "exampleForm ''Ann'' ''abc'' ''1.70''" exampleEnv "Fin 0" "Some (Err ''invalid syntax'')"
      "round64 1.70" None "startState emptyDisk"]
    calculateHandler_invalid_input [of "examplePost ''Ann'' ''75.5'' ''1.75''"
      "exampleForm ''Ann'' ''75.5'' ''1.75''" exampleEnv "round64 75.5" None "round64 1.75" None
      "startState emptyDisk"]
  by (simp add: examplePost_def exampleForm_def exampleEnv_def Get_def MethodPost_def fgt_def
      round64_consts)

text \<open>
  The validation compares with \<open><=\<close>, which is false on NaN: a weight that parses without
  error to NaN passes it, and the record gets the BMI NaN and the category of the default
  branch.
\<close>

lemma calculateHandler_accepts_NaN:
  assumes "Method r = MethodPost"
    and "ParseForm r = Inr form"
    and "ParseFloat e (Get form ''weight'') = (NaN, None)"
    and "ParseFloat e (Get form ''height'') = (heightM, None)"
    and "fgt heightM (Fin 0)"
  shows "fst (calculateHandler e r s) = [Redirect ''/?status=success'' 303] \<and>
         users (snd (calculateHandler e r s)) =
           users s @ [\<lparr>Name = Get form ''name'', WeightKg = NaN, HeightM = heightM,
                        BMI = NaN, Category = ''Cannot interpret''\<rparr>]"
proof -
  have pos: "\<not> fle heightM (Fin 0)" using assms(5) by (rule fgt_zero_not_fle)
  then have bmi: "calculateBMI NaN heightM = NaN" by (simp add: calculateBMI_def)
  have cat: "getBMICategory NaN = ''Cannot interpret''" by (simp add: getBMICategory_consts)
  show ?thesis
    using assms(1-4) pos
    by (auto simp: calculateHandler_def StatusSeeOther_def Let_def bmi cat
        split: prod.splits option.splits dest!: saveUserData_keeps)
qed

text \<open>
  C3, at the input that breaks it: the weight field \<open>NaN\<close> is not a number, and NaN is not
  a positive value. The specification says that the handler responds 400 and leaves the
  record set unchanged; \<open>calculateHandler\<close> responds with the redirect of the success case and
  adds a record with the weight NaN, the BMI NaN and the category \<open>Cannot interpret\<close>.
\<close>

theorem calculateHandler_NaN_weight:
  "ParseFloat nanEnv ''NaN'' = (NaN, None) \<and>
   \<not> fgt NaN (Fin 0) \<and>
   fst (calculateHandler nanEnv (examplePost ''Ann'' ''NaN'' ''1.75'') (startState emptyDisk)) =
     [Redirect ''/?status=success'' 303] \<and>
   users (snd (calculateHandler nanEnv (examplePost ''Ann'' ''NaN'' ''1.75'')
                 (startState emptyDisk))) =
     [\<lparr>Name = ''Ann'', WeightKg = NaN, HeightM = round64 1.75, BMI = NaN,
       Category = ''Cannot interpret''\<rparr>]"
  using calculateHandler_accepts_NaN [where r = "examplePost ''Ann'' ''NaN'' ''1.75''"
      and form = "exampleForm ''Ann'' ''NaN'' ''1.75''" and e = nanEnv
      and heightM = "round64 1.75" and s = "startState emptyDisk"]
  by (simp add: examplePost_def exampleForm_def nanEnv_def exampleEnv_def Get_def
      MethodPost_def fgt_def round64_consts startState_def)

text \<open>So the result is not the 400 with the state as it was.\<close>

theorem calculateHandler_NaN_weight_not_rejected:
  "calculateHandler nanEnv (examplePost ''Ann'' ''NaN'' ''1.75'') (startState emptyDisk) \<noteq>
     ([HttpError ''Invalid input. Please enter valid positive numbers for weight and height.''
         400], startState emptyDisk)"
proof
  assume "calculateHandler nanEnv (examplePost ''Ann'' ''NaN'' ''1.75'') (startState emptyDisk) =
     ([HttpError ''Invalid input. Please enter valid positive numbers for weight and height.''
         400], startState emptyDisk)"
  with calculateHandler_NaN_weight show False by simp
qed

text \<open>
  C4: when a valid POST to \<open>/calculate\<close> is served and persisting the record set fails
  (\<open>saveUserData\<close> returns an error), the failure is logged, the new record stays in the
  in-memory set, and the response is the redirect of the success case.
\<close>

theorem calculateHandler_save_failure:
  assumes "Method r = MethodPost"
    and "ParseForm r = Inr form"
    and "ParseFloat e (Get form ''weight'') = (weightKg, None)"
    and "ParseFloat e (Get form ''height'') = (heightM, None)"
    and "fgt weightKg (Fin 0)" and "fgt heightM (Fin 0)"
    and "newUser = \<lparr>Name = Get form ''name'', WeightKg = weightKg, HeightM = heightM,
           BMI = calculateBMI weightKg heightM,
           Category = getBMICategory (calculateBMI weightKg heightM)\<rparr>"
    and "saveUserData e (s\<lparr>users := users s @ [newUser]\<rparr>) = (Some err, s')"
  shows "calculateHandler e r s =
           ([Redirect ''/?status=success'' 303],
            s'\<lparr>logs := logs s @ [(''Failed to save data: %v'', [AError err])]\<rparr>) \<and>
         users s' = users s @ [newUser]"
proof -
  have pos: "\<not> fle weightKg (Fin 0)" "\<not> fle heightM (Fin 0)"
    using assms(5,6) by (simp_all add: fgt_zero_not_fle)
  from saveUserData_keeps [OF assms(8)]
  have keep: "users s' = users s @ [newUser]" "logs s' = logs s" by simp_all
  have "calculateHandler e r s =
           ([Redirect ''/?status=success'' 303],
            s'\<lparr>logs := logs s' @ [(''Failed to save data: %v'', [AError err])]\<rparr>)"
    using assms(1-4) pos assms(8) [unfolded assms(7)]
    by (simp add: calculateHandler_def StatusSeeOther_def Let_def)
  with keep show ?thesis by simp
qed

theorem calculateHandler_save_failure_witness:
  "fgt (round64 75.5) (Fin 0) \<and> fgt (round64 1.75) (Fin 0) \<and>
   fst (saveUserData exampleEnv ((startState readOnlyDisk)\<lparr>users := [annUser]\<rparr>)) =
     Some (Err ''error writing data to file: open users_data.json: permission denied'') \<and>
   calculateHandler exampleEnv (examplePost ''Ann'' ''75.5'' ''1.75'') (startState readOnlyDisk) =
     ([Redirect ''/?status=success'' 303],
      \<lparr>users = [annUser], fs = readOnlyDisk,
       logs = [(''Failed to save data: %v'',
                [AError (Err ''error writing data to file: open users_data.json: permission denied'')])]\<rparr>)"
  using calculateHandler_save_failure [of "examplePost ''Ann'' ''75.5'' ''1.75''"
      "exampleForm ''Ann'' ''75.5'' ''1.75''" exampleEnv "round64 75.5" "round64 1.75" annUser
      "startState readOnlyDisk"
      "Err ''error writing data to file: open users_data.json: permission denied''"
      "(startState readOnlyDisk)\<lparr>users := [annUser]\<rparr>"]
  by (simp add: examplePost_def exampleForm_def exampleEnv_def Get_def MethodPost_def fgt_def
      round64_consts annUser_def saveUserData_def WriteFile_def readOnlyDisk_def startState_def
      Errorf_def dataFile_def)

section \<open>The record set over the life of the process\<close>

lemma calculateHandler_users:
  "users (snd (calculateHandler e r s)) = users s \<or>
   (\<exists>u. users (snd (calculateHandler e r s)) = users s @ [u] \<and> consistent u)"
  by (auto simp: calculateHandler_def Let_def consistent_def
      split: sum.splits prod.splits option.splits dest!: saveUserData_keeps)

lemma serve_users:
  "users (snd (serve e r s)) = users s \<or>
   (\<exists>u. users (snd (serve e r s)) = users s @ [u] \<and> consistent u)"
  using calculateHandler_users [of e r s]
  by (auto simp: serve_def split: prod.splits)

lemma run_users:
  "\<exists>added. users (run e rs s) = users s @ added \<and> (\<forall>u \<in> set added. consistent u)"
proof (induction rs arbitrary: s)
  case Nil
  show ?case by simp
next
  case (Cons r rs)
  from Cons.IH [of "snd (serve e r s)"]
  obtain added where a: "users (run e rs (snd (serve e r s))) = users (snd (serve e r s)) @ added"
    and c: "\<forall>u \<in> set added. consistent u" by blast
  from serve_users [of e r s] show ?case
  proof
    assume "users (snd (serve e r s)) = users s"
    with a c show ?thesis by auto
  next
    assume "\<exists>u. users (snd (serve e r s)) = users s @ [u] \<and> consistent u"
    then obtain u where "users (snd (serve e r s)) = users s @ [u]" "consistent u" by blast
    with a c have "users (run e (r # rs) s) = users s @ (u # added)"
      "\<forall>v \<in> set (u # added). consistent v" by simp_all
    then show ?thesis by blast
  qed
qed

lemma run_append: "run e (rs @ rs') s = run e rs' (run e rs s)"
  by (induction rs arbitrary: s) simp_all

text \<open>
  C6: whatever requests \<open>rs\<close> are served from a state, every record added to the record
  set has the BMI that \<open>calculateBMI\<close> gives for its weight and height and the category
  that \<open>getBMICategory\<close> gives for that BMI; and whatever requests \<open>rs'\<close> are served
  after them, the record set then starts with the record set as it was: records are
  added at the end, and none is changed or removed.
\<close>

theorem run_append_only_consistent:
  "take (length (users (run e rs s))) (users (run e (rs @ rs') s)) = users (run e rs s) \<and>
   (\<forall>u \<in> set (drop (length (users s)) (users (run e rs s))). consistent u)"
proof -
  from run_users [of e rs' "run e rs s"] obtain later
    where "users (run e (rs @ rs') s) = users (run e rs s) @ later"
    by (auto simp: run_append)
  moreover from run_users [of e rs s] obtain added
    where "users (run e rs s) = users s @ added" "\<forall>u \<in> set added. consistent u" by blast
  ultimately show ?thesis by simp
qed

theorem run_append_only_consistent_witness:
  "users (run exampleEnv [examplePost ''Ann'' ''75.5'' ''1.75''] (startState emptyDisk)) =
     [annUser] \<and>
   take 1 (users (run exampleEnv
     ([examplePost ''Ann'' ''75.5'' ''1.75''] @
      [examplePost ''Bob'' ''24.95'' ''1'', exampleGet ''/'' [''status'' \<mapsto> [''success'']]])
     (startState emptyDisk))) = [annUser] \<and>
   annUser \<in> set (drop (length (users (startState emptyDisk)))
     (users (run exampleEnv [examplePost ''Ann'' ''75.5'' ''1.75''] (startState emptyDisk)))) \<and>
   consistent annUser"
proof -
  have u: "users (run exampleEnv [examplePost ''Ann'' ''75.5'' ''1.75''] (startState emptyDisk)) =
      [annUser]"
    by (simp add: serve_def calculateHandler_def saveUserData_def WriteFile_def Let_def
        examplePost_def exampleForm_def exampleEnv_def Get_def MethodPost_def
        round64_consts annUser_def startState_def emptyDisk_def)
  then have m: "annUser \<in> set (drop (length (users (startState emptyDisk)))
     (users (run exampleEnv [examplePost ''Ann'' ''75.5'' ''1.75''] (startState emptyDisk))))"
    by (simp add: startState_def)
  note inst = run_append_only_consistent [where e = exampleEnv
      and rs = "[examplePost ''Ann'' ''75.5'' ''1.75'']" and s = "startState emptyDisk"
      and rs' = "[examplePost ''Bob'' ''24.95'' ''1'',
                  exampleGet ''/'' [''status'' \<mapsto> [''success'']]]"]
  from inst m have c: "consistent annUser" by blast
  from inst have "take (length (users (run exampleEnv [examplePost ''Ann'' ''75.5'' ''1.75'']
        (startState emptyDisk))))
      (users (run exampleEnv
        ([examplePost ''Ann'' ''75.5'' ''1.75''] @
         [examplePost ''Bob'' ''24.95'' ''1'', exampleGet ''/'' [''status'' \<mapsto> [''success'']]])
        (startState emptyDisk))) = [annUser]"
    by (simp only: u)
  then have t: "take 1 (users (run exampleEnv
     ([examplePost ''Ann'' ''75.5'' ''1.75''] @
      [examplePost ''Bob'' ''24.95'' ''1'', exampleGet ''/'' [''status'' \<mapsto> [''success'']]])
     (startState emptyDisk))) = [annUser]"
    by (simp only: u list.size One_nat_def add_0 length_Cons)
  from u t m c show ?thesis by (intro conjI)
qed

section \<open>The render path\<close>

lemma index_last:
  "index xs (int (length xs) - 1) =
     (if xs = [] then Inl (IndexOutOfRange (- 1) 0) else Inr (last xs))"
  by (cases xs rule: rev_cases) (simp_all add: index_def nth_append)

text \<open>
  C10: a request to \<open>/\<close> with the query parameter \<open>status=success\<close> indexes the last
  element of the record set unconditionally. On the empty set the index \<open>-1\<close> is out of
  range and the handler panics instead of answering; on a non-empty set the message is
  built from the name and the BMI of the last record.
\<close>

theorem rootHandler_status_success:
  assumes "Get (URLQuery r) ''status'' = ''success''"
  shows "(users s = [] \<longrightarrow> rootHandler e r s = Inl (IndexOutOfRange (- 1) 0)) \<and>
         (users s \<noteq> [] \<longrightarrow>
            rootHandler e r s =
              Inr (render e
                \<lparr>Users = users s,
                 Message = Sprintf e ''Success! %s's BMI (%.2f) calculated and saved.''
                   [AString (Name (last (users s))), AFloat (BMI (last (users s)))]\<rparr>))"
proof (cases "users s = []")
  case True
  with assms show ?thesis by (simp add: rootHandler_def index_def)
next
  case False
  with assms show ?thesis by (simp add: rootHandler_def index_last)
qed

theorem rootHandler_status_success_witness:
  "Get (URLQuery (exampleGet ''/'' [''status'' \<mapsto> [''success'']])) ''status'' = ''success'' \<and>
   users (startState emptyDisk) = [] \<and>
   rootHandler exampleEnv (exampleGet ''/'' [''status'' \<mapsto> [''success'']]) (startState emptyDisk) =
     Inl (IndexOutOfRange (- 1) 0) \<and>
   users ((startState emptyDisk)\<lparr>users := [annUser]\<rparr>) \<noteq> [] \<and>
   rootHandler exampleEnv (exampleGet ''/'' [''status'' \<mapsto> [''success'']])
       ((startState emptyDisk)\<lparr>users := [annUser]\<rparr>) =
     Inr [Written ''Success! %s's BMI (%.2f) calculated and saved.'']"
  using rootHandler_status_success [of "exampleGet ''/'' [''status'' \<mapsto> [''success'']]"
      "startState emptyDisk" exampleEnv]
    rootHandler_status_success [of "exampleGet ''/'' [''status'' \<mapsto> [''success'']]"
      "(startState emptyDisk)\<lparr>users := [annUser]\<rparr>" exampleEnv]
  by (simp add: exampleGet_def Get_def startState_def render_def exampleEnv_def)

end
